theory Spec2Isabelle
  imports Main "HOL-Library.Sublist"
begin

section \<open>The task list component (src/frontend/src/TaskList.tsx)\<close>

text \<open>
  A shallow embedding of the state and the handlers of the React component \<open>TaskList\<close>.
  The component's \<open>useState\<close> cells and the part of the router location it reads make up
  one record; every handler is a function from that record to the updated record together
  with the list of effects it performed, in order. The outcome of each remote call is an
  argument of the handler (an error, or the resolved value), so both the success and the
  failure branch of every \<open>try\<close>/\<open>catch\<close> are branches of the model. A handler is run to
  completion, including the continuation of a \<open>loadTasks()\<close> it starts without awaiting.
\<close>

subsection \<open>Strings of the host language\<close>

text \<open>
  A string of the host language is a sequence of UTF-16 code units, modelled as a list of
  natural numbers. \<open>js\<close> writes such a string from an ASCII literal. The texts a user types
  (task names, details, the search query, the draft fields) have this type; the strings that
  are only compared for equality with ASCII literals (the view mode, the names and values of
  the query string, the pressed key, the id of a dragged card) stay plain strings.
\<close>

type_synonym jsstring = "nat list"

definition js :: "string \<Rightarrow> jsstring" where
  "js s = map of_char s"

text \<open>
  \<open>String.prototype.toLowerCase\<close>. The capitals \<open>A\<close>..\<open>Z\<close> (U+0041..U+005A), the Latin-1
  capitals U+00C0..U+00DE without the multiplication sign U+00D7, and the full-width capitals
  U+FF21..U+FF3A move up by 32 to their small letters; every other code unit is kept.

  This is the host function on text made of the code units of \<open>plain_unit\<close> below: Latin-1,
  general punctuation, the blocks U+3000..U+9FFF (CJK punctuation, kana, ideographs) and the
  half-width and full-width forms. On those code units the host's case mapping is the one
  written here and looks at one code unit at a time. Other scripts (for example Greek, whose
  capital sigma is mapped by context, or U+0130, which becomes two code units) are not
  modelled, and the statements about text matching below are made for plain text.
\<close>

definition capital_unit :: "nat \<Rightarrow> bool" where
  "capital_unit u =
     ((0x41 \<le> u \<and> u \<le> 0x5A) \<or> (0xC0 \<le> u \<and> u \<le> 0xD6) \<or> (0xD8 \<le> u \<and> u \<le> 0xDE)
      \<or> (0xFF21 \<le> u \<and> u \<le> 0xFF3A))"

definition toLowerCase_unit :: "nat \<Rightarrow> nat" where
  "toLowerCase_unit u = (if capital_unit u then u + 0x20 else u)"

definition toLowerCase :: "jsstring \<Rightarrow> jsstring" where
  "toLowerCase s = map toLowerCase_unit s"

definition plain_unit :: "nat \<Rightarrow> bool" where
  "plain_unit u =
     (u \<le> 0xFF \<or> u = 0x1680 \<or> (0x2000 \<le> u \<and> u \<le> 0x206F) \<or> (0x3000 \<le> u \<and> u \<le> 0x9FFF)
      \<or> (0xFF00 \<le> u \<and> u \<le> 0xFFEF) \<or> u = 0xFEFF)"

definition plain_text :: "jsstring \<Rightarrow> bool" where
  "plain_text s = list_all plain_unit s"

text \<open>
  \<open>String.prototype.trim\<close> strips white space and line terminators from both ends: TAB, LF,
  VT, FF, CR, SPACE, U+00A0, U+1680, U+2000..U+200A, U+2028, U+2029, U+202F, U+205F, U+3000
  and U+FEFF.
\<close>

definition isWhiteSpace :: "nat \<Rightarrow> bool" where
  "isWhiteSpace u =
     ((0x09 \<le> u \<and> u \<le> 0x0D) \<or> u = 0x20 \<or> u = 0xA0 \<or> u = 0x1680
      \<or> (0x2000 \<le> u \<and> u \<le> 0x200A) \<or> u = 0x2028 \<or> u = 0x2029 \<or> u = 0x202F
      \<or> u = 0x205F \<or> u = 0x3000 \<or> u = 0xFEFF)"

definition trim :: "jsstring \<Rightarrow> jsstring" where
  "trim s = rev (dropWhile isWhiteSpace (rev (dropWhile isWhiteSpace s)))"

text \<open>\<open>includes' s pat\<close> is \<open>s.includes(pat)\<close>: some position of \<open>s\<close> starts with \<open>pat\<close>.\<close>

fun includes' :: "jsstring \<Rightarrow> jsstring \<Rightarrow> bool" where
  "includes' [] pat = (pat = [])"
| "includes' (c # cs) pat = (prefix pat (c # cs) \<or> includes' cs pat)"

text \<open>
  \<open>Number.prototype.toString\<close> on an integral task id: the decimal digits, most significant
  first, with a leading minus sign for a negative number (ids below \<open>10^21\<close> in magnitude,
  where the host language prints no exponent).
\<close>

definition digit_char :: "nat \<Rightarrow> char" where
  "digit_char d = char_of (48 + d)"

function digits :: "nat \<Rightarrow> string" where
  "digits n = (if n < 10 then [digit_char n] else digits (n div 10) @ [digit_char (n mod 10)])"
  by pat_completeness auto
termination
  by (relation "measure (\<lambda>n. n)") auto

declare digits.simps [simp del]

definition number_toString :: "int \<Rightarrow> string" where
  "number_toString i = (if i < 0 then CHR ''-'' # digits (nat (- i)) else digits (nat i))"

subsection \<open>Tasks\<close>

text \<open>
  Modelled from the spec: the type \<open>Task\<close> is imported from \<open>./api\<close>, which is not among the
  sources. The spec gives its fields (id, name, details, status, updated\_at), and the
  component's comment on \<open>StatusType\<close> gives the three status literals, named here
  \<open>NotStarted\<close>, \<open>InProgress\<close> and \<open>Done\<close> as in the spec.
\<close>

datatype StatusType = NotStarted | InProgress | Done

record Task =
  id' :: int
  name :: jsstring
  details :: jsstring
  status :: StatusType
  updated_at :: nat

definition ALL_STATUSES :: "StatusType list" where
  "ALL_STATUSES = [NotStarted, InProgress, Done]"

text \<open>The object sent with \<open>createTask\<close> and \<open>updateTask\<close>.\<close>

record TaskFields =
  name_f :: jsstring
  details_f :: jsstring
  status_f :: StatusType

subsection \<open>The query string\<close>

text \<open>
  A \<open>URLSearchParams\<close> object is its list of name-value tuples, in order and with
  duplicates. \<open>get\<close> returns the value of the first tuple with the name, \<open>set\<close> overwrites the
  first such tuple and removes the others, or appends a tuple when there is none. The
  router's \<open>location.search\<close> is kept in this parsed form, so that writing
  \<open>newParams.toString()\<close> with \<open>navigate\<close> and reading it back stores the tuple list.
\<close>

type_synonym URLSearchParams = "(string \<times> string) list"

fun params_get :: "string \<Rightarrow> URLSearchParams \<Rightarrow> string option" where
  "params_get n [] = None"
| "params_get n ((k, v) # ps) = (if k = n then Some v else params_get n ps)"

fun params_set :: "string \<Rightarrow> string \<Rightarrow> URLSearchParams \<Rightarrow> URLSearchParams" where
  "params_set n v [] = [(n, v)]"
| "params_set n v ((k, x) # ps) =
     (if k = n then (n, v) # filter (\<lambda>p. fst p \<noteq> n) ps else (k, x) # params_set n v ps)"

subsection \<open>Component state\<close>

record state =
  viewMode :: string
  tasks :: "Task list"
  showSearch :: bool
  filterText :: jsstring
  selectedStatuses :: "StatusType list"
  showStatusDropdown :: bool
  newTaskName :: jsstring
  newTaskDetails :: jsstring
  editingNewTask :: bool
  location_search :: URLSearchParams

text \<open>
  \<open>initialView\<close>: the value of the \<open>view\<close> parameter, or \<open>table\<close> when \<open>get\<close> returns
  \<open>null\<close> or the empty string (the two falsy results). The cast to
  \<open>"table" | "board"\<close> is erased at run time.
\<close>

definition initialView :: "URLSearchParams \<Rightarrow> string" where
  "initialView params =
     (case params_get ''view'' params of
        None \<Rightarrow> ''table''
      | Some v \<Rightarrow> if v = [] then ''table'' else v)"

text \<open>
  The state of the first render, for the query string \<open>search\<close> of the location, before
  the two mount effects (\<open>loadTasks\<close> and the effect on \<open>viewMode\<close>) have run.
\<close>

definition mount :: "URLSearchParams \<Rightarrow> state" where
  "mount search =
     \<lparr> viewMode = initialView search, tasks = [], showSearch = False, filterText = [],
       selectedStatuses = [], showStatusDropdown = False, newTaskName = [],
       newTaskDetails = [], editingNewTask = False, location_search = search \<rparr>"

text \<open>
  The effect on \<open>viewMode\<close>: copy the current query string, set \<open>view\<close>, and replace the
  location's query string with the result.
\<close>

definition viewModeEffect :: "state \<Rightarrow> state" where
  "viewModeEffect st =
     (let newParams = params_set ''view'' (viewMode st) (location_search st)
      in st\<lparr>location_search := newParams\<rparr>)"

text \<open>A click on one of the two view buttons: the state cell changes and the effect runs.\<close>

definition setViewMode :: "string \<Rightarrow> state \<Rightarrow> state" where
  "setViewMode v st = (if viewMode st = v then st else viewModeEffect (st\<lparr>viewMode := v\<rparr>))"

subsection \<open>Effects and remote outcomes\<close>

datatype error = Error string

datatype log_message = FetchFailed | CreateFailed | StatusUpdateFailed | DeleteFailed

datatype effect =
    FetchTasks
  | CreateTask TaskFields
  | UpdateTask int TaskFields
  | DeleteTask int
  | ConsoleError log_message error

text \<open>
  \<open>loadTasks\<close>: the outcome of \<open>fetchTasks\<close> is an error or the resolved data, which may be
  \<open>null\<close> (\<open>None\<close>); \<open>data || []\<close> stores the empty list then.
\<close>

definition loadTasks :: "error + Task list option \<Rightarrow> state \<Rightarrow> state \<times> effect list" where
  "loadTasks fetched st =
     (case fetched of
        Inr data \<Rightarrow> (st\<lparr>tasks := (case data of Some d \<Rightarrow> d | None \<Rightarrow> [])\<rparr>, [FetchTasks])
      | Inl e \<Rightarrow> (st\<lparr>tasks := []\<rparr>, [FetchTasks, ConsoleError FetchFailed e]))"

definition handleCreate ::
  "error + unit \<Rightarrow> error + Task list option \<Rightarrow> state \<Rightarrow> state \<times> effect list" where
  "handleCreate created fetched st =
     (if trim (newTaskName st) = [] then (st\<lparr>editingNewTask := False\<rparr>, [])
      else
        let call = CreateTask \<lparr> name_f = trim (newTaskName st),
                                details_f = trim (newTaskDetails st),
                                status_f = NotStarted \<rparr>
        in case created of
             Inr u \<Rightarrow>
               let st1 = st\<lparr>newTaskName := [], newTaskDetails := [], editingNewTask := False\<rparr>;
                   (st2, effs) = loadTasks fetched st1
               in (st2, call # effs)
           | Inl e \<Rightarrow> (st, [call, ConsoleError CreateFailed e]))"

definition handleStatusChange ::
  "Task \<Rightarrow> StatusType \<Rightarrow> error + unit \<Rightarrow> error + Task list option \<Rightarrow> state
     \<Rightarrow> state \<times> effect list" where
  "handleStatusChange task newStatus updated fetched st =
     (let call = UpdateTask (id' task)
                   \<lparr> name_f = name task, details_f = details task, status_f = newStatus \<rparr>
      in case updated of
           Inr u \<Rightarrow> (let (st1, effs) = loadTasks fetched st in (st1, call # effs))
         | Inl e \<Rightarrow> (st, [call, ConsoleError StatusUpdateFailed e]))"

text \<open>\<open>handleDelete\<close>; stopping the propagation of the click changes nothing modelled here.\<close>

definition handleDelete ::
  "int \<Rightarrow> error + unit \<Rightarrow> error + Task list option \<Rightarrow> state \<Rightarrow> state \<times> effect list" where
  "handleDelete i deleted fetched st =
     (case deleted of
        Inr u \<Rightarrow> (let (st1, effs) = loadTasks fetched st in (st1, DeleteTask i # effs))
      | Inl e \<Rightarrow> (st, [DeleteTask i, ConsoleError DeleteFailed e]))"

text \<open>\<open>filteredTasks\<close>, recomputed from the state at every render.\<close>

definition filteredTasks :: "state \<Rightarrow> Task list" where
  "filteredTasks st =
     filter (\<lambda>task.
        let matchText =
              (includes' (toLowerCase (name task)) (toLowerCase (filterText st)) \<or>
               includes' (toLowerCase (details task)) (toLowerCase (filterText st)));
            matchStatus =
              (length (selectedStatuses st) = 0 \<or> status task \<in> set (selectedStatuses st))
        in matchText \<and> matchStatus) (tasks st)"

definition handleKeyDown ::
  "string \<Rightarrow> error + unit \<Rightarrow> error + Task list option \<Rightarrow> state \<Rightarrow> state \<times> effect list" where
  "handleKeyDown key created fetched st =
     (if key = ''Enter'' then handleCreate created fetched st else (st, []))"

text \<open>The two buttons and the row of the draft editor that do not call the store.\<close>

definition startEditing :: "state \<Rightarrow> state" where
  "startEditing st = st\<lparr>editingNewTask := True\<rparr>"

definition cancelEditing :: "state \<Rightarrow> state" where
  "cancelEditing st = st\<lparr>editingNewTask := False, newTaskName := [], newTaskDetails := []\<rparr>"

subsection \<open>Drag and drop\<close>

text \<open>
  The result object of the drag-and-drop library: the id of the dragged card, the column
  it came from, and the column it was dropped on, absent when it was dropped outside every
  column. Columns are created for the members of \<open>ALL_STATUSES\<close> only, so a column id is a
  status.
\<close>

record DraggableLocation =
  droppableId :: StatusType
  index :: nat

record DropResult =
  draggableId :: string
  source :: DraggableLocation
  destination :: "DraggableLocation option"

text \<open>
  \<open>taskToUpdate\<close>: the first task of the visible subset whose id prints as the dragged
  card's id, or nothing (\<open>undefined\<close>).
\<close>

definition taskToUpdate :: "DropResult \<Rightarrow> state \<Rightarrow> Task option" where
  "taskToUpdate result st =
     find (\<lambda>t. number_toString (id' t) = draggableId result) (filteredTasks st)"

text \<open>
  \<open>handleDragEnd\<close> has no \<open>catch\<close>: when \<open>updateTask\<close> rejects, the promise the handler
  returns rejects with the same error, which is the third component of the result.
\<close>

definition handleDragEnd ::
  "DropResult \<Rightarrow> error + unit \<Rightarrow> error + Task list option \<Rightarrow> state
     \<Rightarrow> state \<times> effect list \<times> error option" where
  "handleDragEnd result updated fetched st =
     (case destination result of
        None \<Rightarrow> (st, [], None)
      | Some dest \<Rightarrow>
          if droppableId dest = droppableId (source result) then (st, [], None)
          else
            (case taskToUpdate result st of
               None \<Rightarrow> (st, [], None)
             | Some t \<Rightarrow>
                 (let call = UpdateTask (id' t)
                               \<lparr> name_f = name t, details_f = details t,
                                 status_f = droppableId dest \<rparr>
                  in (case updated of
                        Inl e \<Rightarrow> (st, [call], Some e)
                      | Inr u \<Rightarrow>
                          (let (st1, effs) = loadTasks fetched st
                           in (st1, call # effs, None))))))"

subsection \<open>Reading a list of effects\<close>

text \<open>The calls to the remote store among the effects of a handler, in order.\<close>

fun is_remote_call :: "effect \<Rightarrow> bool" where
  "is_remote_call (ConsoleError m e) = False"
| "is_remote_call c = True"

definition remote_calls :: "effect list \<Rightarrow> effect list" where
  "remote_calls effs = filter is_remote_call effs"

subsection \<open>Concrete inputs\<close>

text \<open>
  The task of the specification's end-to-end examples, a board showing it, a draft being
  edited, a draft whose name is a no-break space, an ideographic space and a space, and a
  card dragged from the first column to the last. \<open>cafe_task\<close> is named CAFE with a capital
  E acute (U+00C9), and its details are two ideographs followed by a full-width capital A;
  \<open>cafe_query\<close> is the same word in small letters, with the small e acute (U+00E9).
\<close>

definition example_task :: Task where
  "example_task =
     \<lparr> id' = 1, name = js ''Write spec'', details = [], status = NotStarted, updated_at = 0 \<rparr>"

definition cafe_task :: Task where
  "cafe_task =
     \<lparr> id' = 2, name = [0x43, 0x41, 0x46, 0xC9], details = [0x4ED5, 0x69D8, 0xFF21],
       status = InProgress, updated_at = 0 \<rparr>"

definition cafe_query :: jsstring where
  "cafe_query = [0x63, 0x61, 0x66, 0xE9]"

definition example_state :: state where
  "example_state = (mount [(''view'', ''board'')])\<lparr>tasks := [example_task]\<rparr>"

definition cafe_state :: state where
  "cafe_state = example_state\<lparr>tasks := [example_task, cafe_task], filterText := cafe_query\<rparr>"

definition example_draft :: state where
  "example_draft =
     example_state\<lparr>editingNewTask := True, newTaskName := js ''  Review  '',
                    newTaskDetails := js ''by Friday''\<rparr>"

definition blank_draft :: state where
  "blank_draft =
     example_state\<lparr>editingNewTask := True, newTaskName := [0xA0, 0x3000, 0x20],
                    newTaskDetails := js ''by Friday''\<rparr>"

definition example_drag :: DropResult where
  "example_drag =
     \<lparr> draggableId = ''1'', source = \<lparr> droppableId = NotStarted, index = 0 \<rparr>,
       destination = Some \<lparr> droppableId = Done, index = 0 \<rparr> \<rparr>"

definition example_error :: error where
  "example_error = Error ''Network Error''"

subsection \<open>The filter as the specification words it\<close>

text \<open>
  The specification's reading of the filter, kept apart from \<open>filteredTasks\<close> and from
  \<open>toLowerCase\<close>. Two code units are the same letter when they are equal or one is a capital
  and the other its small letter; two texts are equal ignoring case when they have the same
  letters position by position; a query is a case-insensitive substring of a text when some
  contiguous piece of the text equals the query ignoring case; and a task is visible when the
  text part and the status part both hold.
\<close>

definition small_letter_of :: "nat \<Rightarrow> nat \<Rightarrow> bool" where
  "small_letter_of capital small =
     ((0x41 \<le> capital \<and> capital \<le> 0x5A \<and> 0x61 \<le> small \<and> small \<le> 0x7A
         \<and> small - 0x61 = capital - 0x41)
      \<or> (0xC0 \<le> capital \<and> capital \<le> 0xDE \<and> capital \<noteq> 0xD7 \<and> 0xE0 \<le> small \<and> small \<le> 0xFE
         \<and> small - 0xE0 = capital - 0xC0)
      \<or> (0xFF21 \<le> capital \<and> capital \<le> 0xFF3A \<and> 0xFF41 \<le> small \<and> small \<le> 0xFF5A
         \<and> small - 0xFF41 = capital - 0xFF21))"

definition same_letter :: "nat \<Rightarrow> nat \<Rightarrow> bool" where
  "same_letter u v = (u = v \<or> small_letter_of u v \<or> small_letter_of v u)"

definition equal_ignoring_case :: "jsstring \<Rightarrow> jsstring \<Rightarrow> bool" where
  "equal_ignoring_case a b = list_all2 same_letter a b"

definition case_insensitive_substring :: "jsstring \<Rightarrow> jsstring \<Rightarrow> bool" where
  "case_insensitive_substring q s =
     (\<exists>pre mid post. s = pre @ mid @ post \<and> equal_ignoring_case mid q)"

definition spec_visible :: "jsstring \<Rightarrow> StatusType set \<Rightarrow> Task \<Rightarrow> bool" where
  "spec_visible q statuses task =
     ((q = [] \<or> case_insensitive_substring q (name task)
              \<or> case_insensitive_substring q (details task))
      \<and> (statuses = {} \<or> status task \<in> statuses))"

text \<open>The texts of a state that the filter reads are plain text.\<close>

definition plain_state :: "state \<Rightarrow> bool" where
  "plain_state st =
     (plain_text (filterText st) \<and>
      list_all (\<lambda>t. plain_text (name t) \<and> plain_text (details t)) (tasks st))"

text \<open>A text that neither starts nor ends with white space.\<close>

definition no_outer_white_space :: "jsstring \<Rightarrow> bool" where
  "no_outer_white_space q = (q = [] \<or> (\<not> isWhiteSpace (hd q) \<and> \<not> isWhiteSpace (last q)))"

section \<open>Properties\<close>

text \<open>The definitions a concrete input is evaluated with.\<close>

lemmas example_defs =
  example_task_def cafe_task_def cafe_query_def example_state_def cafe_state_def
  example_draft_def blank_draft_def example_drag_def example_error_def mount_def
  initialView_def js_def

lemmas string_defs =
  toLowerCase_def toLowerCase_unit_def capital_unit_def trim_def isWhiteSpace_def plain_text_def plain_unit_def
  plain_state_def no_outer_white_space_def

lemma number_toString_small: "number_toString 1 = ''1''" "number_toString 2 = ''2''"
  by code_simp+

subsection \<open>Strings\<close>

lemma includes_sublist: "includes' s pat \<longleftrightarrow> sublist pat s"
  by (induction s) (auto simp: sublist_Cons_right)

lemma includes_empty_query: "includes' s []"
  by (simp add: includes_sublist)

lemma sublist_map_pieces:
  "sublist (map f q) (map f s) \<longleftrightarrow> (\<exists>pre mid post. s = pre @ mid @ post \<and> map f mid = map f q)"
proof
  assume "sublist (map f q) (map f s)"
  then obtain ps ss where "map f s = ps @ map f q @ ss"
    by (auto simp: sublist_def)
  then obtain pre rest where s: "s = pre @ rest" and rest: "map f rest = map f q @ ss"
    by (metis map_eq_append_conv)
  from rest obtain mid post where "rest = mid @ post" and "map f mid = map f q"
    by (metis map_eq_append_conv)
  with s show "\<exists>pre mid post. s = pre @ mid @ post \<and> map f mid = map f q"
    by blast
next
  assume "\<exists>pre mid post. s = pre @ mid @ post \<and> map f mid = map f q"
  then obtain pre mid post where "s = pre @ mid @ post" and "map f mid = map f q"
    by blast
  then have "map f s = map f pre @ map f q @ map f post"
    by simp
  then show "sublist (map f q) (map f s)"
    unfolding sublist_def by blast
qed

text \<open>The case mapping identifies exactly the code units that are the same letter.\<close>

lemma small_letter_of_capital:
  "small_letter_of c s \<longleftrightarrow> capital_unit c \<and> s = c + 0x20"
proof -
  have a: "0x41 \<le> c \<and> c \<le> 0x5A \<and> 0x61 \<le> s \<and> s \<le> 0x7A \<and> s - 0x61 = c - 0x41
             \<longleftrightarrow> 0x41 \<le> c \<and> c \<le> 0x5A \<and> s = c + 0x20"
    by arith
  have b: "0xC0 \<le> c \<and> c \<le> 0xDE \<and> c \<noteq> 0xD7 \<and> 0xE0 \<le> s \<and> s \<le> 0xFE \<and> s - 0xE0 = c - 0xC0
             \<longleftrightarrow> ((0xC0 \<le> c \<and> c \<le> 0xD6) \<or> (0xD8 \<le> c \<and> c \<le> 0xDE)) \<and> s = c + 0x20"
    by arith
  have c: "0xFF21 \<le> c \<and> c \<le> 0xFF3A \<and> 0xFF41 \<le> s \<and> s \<le> 0xFF5A \<and> s - 0xFF41 = c - 0xFF21
             \<longleftrightarrow> 0xFF21 \<le> c \<and> c \<le> 0xFF3A \<and> s = c + 0x20"
    by arith
  show ?thesis
    unfolding small_letter_of_def capital_unit_def a b c by blast
qed

lemma small_letter_not_capital: "capital_unit u \<Longrightarrow> \<not> capital_unit (u + 0x20)"
  unfolding capital_unit_def by arith

lemma toLowerCase_unit_same_letter:
  "toLowerCase_unit u = toLowerCase_unit v \<longleftrightarrow> same_letter u v"
proof (cases "capital_unit u")
  case cu: True
  show ?thesis
  proof (cases "capital_unit v")
    case True
    with cu small_letter_not_capital [of u] small_letter_not_capital [of v] show ?thesis
      by (auto simp: toLowerCase_unit_def same_letter_def small_letter_of_capital)
  next
    case False
    with cu show ?thesis
      by (auto simp: toLowerCase_unit_def same_letter_def small_letter_of_capital)
  qed
next
  case nu: False
  show ?thesis
  proof (cases "capital_unit v")
    case True
    with nu show ?thesis
      by (auto simp: toLowerCase_unit_def same_letter_def small_letter_of_capital)
  next
    case False
    with nu show ?thesis
      by (auto simp: toLowerCase_unit_def same_letter_def small_letter_of_capital)
  qed
qed

lemma toLowerCase_equal_ignoring_case:
  "toLowerCase a = toLowerCase b \<longleftrightarrow> equal_ignoring_case a b"
proof (induction a arbitrary: b)
  case Nil
  then show ?case
    by (simp add: toLowerCase_def equal_ignoring_case_def)
next
  case (Cons x xs)
  then show ?case
    by (cases b) (simp_all add: toLowerCase_def equal_ignoring_case_def
                    toLowerCase_unit_same_letter)
qed

lemma includes_case_insensitive:
  "includes' (toLowerCase s) (toLowerCase q) \<longleftrightarrow> case_insensitive_substring q s"
proof -
  have "includes' (toLowerCase s) (toLowerCase q) \<longleftrightarrow>
          (\<exists>pre mid post. s = pre @ mid @ post \<and> toLowerCase mid = toLowerCase q)"
    unfolding includes_sublist toLowerCase_def by (rule sublist_map_pieces)
  then show ?thesis
    by (simp add: case_insensitive_substring_def toLowerCase_equal_ignoring_case)
qed

lemma case_insensitive_substring_empty: "case_insensitive_substring [] s"
  unfolding includes_case_insensitive [symmetric]
  by (simp add: toLowerCase_def includes_empty_query)

lemma sublist_trim: "sublist (trim q) q"
proof -
  have "suffix (dropWhile isWhiteSpace (rev (dropWhile isWhiteSpace q)))
          (rev (dropWhile isWhiteSpace q))"
    by (rule suffix_dropWhile)
  then have "prefix (trim q) (dropWhile isWhiteSpace q)"
    by (simp add: trim_def suffix_to_prefix)
  then have "sublist (trim q) (dropWhile isWhiteSpace q)"
    by (rule prefix_imp_sublist)
  moreover have "sublist (dropWhile isWhiteSpace q) q"
    by (rule suffix_imp_sublist) (rule suffix_dropWhile)
  ultimately show ?thesis
    by (rule sublist_order.order_trans)
qed

lemma includes_trim:
  assumes "includes' (toLowerCase s) (toLowerCase q)"
  shows "includes' (toLowerCase s) (toLowerCase (trim q))"
proof -
  have "sublist (toLowerCase (trim q)) (toLowerCase q)"
    unfolding toLowerCase_def by (rule map_mono_sublist) (rule sublist_trim)
  with assms show ?thesis
    unfolding includes_sublist by (rule sublist_order.order_trans [rotated])
qed

lemma dropWhile_keeps:
  assumes "xs = [] \<or> \<not> P (hd xs)"
  shows "dropWhile P xs = xs"
  using assms by (cases xs) auto

lemma trim_no_outer_white_space:
  assumes "no_outer_white_space q"
  shows "trim q = q"
proof -
  from assms have hq: "q = [] \<or> \<not> isWhiteSpace (hd q)"
    by (auto simp: no_outer_white_space_def)
  from assms have hr: "rev q = [] \<or> \<not> isWhiteSpace (hd (rev q))"
    by (auto simp: no_outer_white_space_def hd_rev)
  have "dropWhile isWhiteSpace q = q"
    using hq by (rule dropWhile_keeps)
  moreover have "dropWhile isWhiteSpace (rev q) = rev q"
    using hr by (rule dropWhile_keeps)
  ultimately show ?thesis
    by (simp add: trim_def)
qed

subsection \<open>The filter\<close>

lemma visible_iff_spec:
  "(let matchText =
          (includes' (toLowerCase (name task)) (toLowerCase q) \<or>
           includes' (toLowerCase (details task)) (toLowerCase q));
        matchStatus = (length sel = 0 \<or> status task \<in> set sel)
    in matchText \<and> matchStatus) \<longleftrightarrow> spec_visible q (set sel) task"
  using case_insensitive_substring_empty [of "name task"]
  by (auto simp: spec_visible_def includes_case_insensitive Let_def)

lemma filteredTasks_filter_spec_visible:
  "filteredTasks st =
     filter (spec_visible (filterText st) (set (selectedStatuses st))) (tasks st)"
  unfolding filteredTasks_def by (simp only: visible_iff_spec)

lemma filteredTasks_subseq_trim:
  "subseq (filteredTasks (st\<lparr>filterText := q\<rparr>)) (filteredTasks (st\<lparr>filterText := trim q\<rparr>))"
proof -
  let ?P = "\<lambda>x task.
        let matchText =
              (includes' (toLowerCase (name task)) (toLowerCase x) \<or>
               includes' (toLowerCase (details task)) (toLowerCase x));
            matchStatus =
              (length (selectedStatuses st) = 0 \<or> status task \<in> set (selectedStatuses st))
        in matchText \<and> matchStatus"
  have "filter (?P q) (tasks st) = filter (?P q) (filter (?P (trim q)) (tasks st))"
    by (auto simp: Let_def includes_trim intro!: filter_cong)
  moreover have "subseq (filter (?P q) (filter (?P (trim q)) (tasks st)))
                   (filter (?P (trim q)) (tasks st))"
    by (rule subseq_filter_left)
  ultimately show ?thesis
    by (simp add: filteredTasks_def)
qed



lemma filteredTasks_example:
  "filteredTasks (example_state\<lparr>filterText := js ''spec''\<rparr>) = [example_task] \<and>
   filteredTasks (example_state\<lparr>filterText := js ''SPEC''\<rparr>) = [example_task] \<and>
   filteredTasks (example_state\<lparr>selectedStatuses := [Done]\<rparr>) = [] \<and>
   filteredTasks (cafe_state\<lparr>filterText := [0x69D8, 0xFF41]\<rparr>) = [cafe_task]"
  by (simp add: filteredTasks_def example_defs string_defs)

text \<open>
  C9, as the claim states it, fails: the query \<open>spec\<close> followed by a space hides the task
  named \<open>Write spec\<close>, and the trimmed query shows it.
\<close>

theorem filter_trimmed_counterexample:
  "filteredTasks (example_state\<lparr>filterText := js ''spec ''\<rparr>) = [] \<and>
   filteredTasks (example_state\<lparr>filterText := trim (js ''spec '')\<rparr>) = [example_task]"
  by (simp add: filteredTasks_def example_defs string_defs)

text \<open>
  C9, amended. On plain text the filter matches the query as typed, white space included: a
  task is visible under a query exactly when the query itself is empty or a case-insensitive
  substring of the name or of the details, and the status part holds. So the tasks visible
  under a query are, in the same order, among the tasks visible under the trimmed query, and
  the two subsets are equal when the query neither starts nor ends with white space.
\<close>

theorem filter_untrimmed:
  assumes "plain_state (st\<lparr>filterText := q\<rparr>)"
  shows "filteredTasks (st\<lparr>filterText := q\<rparr>) =
           filter (spec_visible q (set (selectedStatuses st))) (tasks st)
         \<and> subseq (filteredTasks (st\<lparr>filterText := q\<rparr>))
                  (filteredTasks (st\<lparr>filterText := trim q\<rparr>))
         \<and> (no_outer_white_space q \<longrightarrow>
              filteredTasks (st\<lparr>filterText := trim q\<rparr>) = filteredTasks (st\<lparr>filterText := q\<rparr>))"
proof -
  have "filteredTasks (st\<lparr>filterText := q\<rparr>) =
          filter (spec_visible q (set (selectedStatuses st))) (tasks st)"
    using filteredTasks_filter_spec_visible [of "st\<lparr>filterText := q\<rparr>"] by simp
  moreover have "subseq (filteredTasks (st\<lparr>filterText := q\<rparr>))
                   (filteredTasks (st\<lparr>filterText := trim q\<rparr>))"
    by (rule filteredTasks_subseq_trim)
  moreover have "no_outer_white_space q \<longrightarrow>
      filteredTasks (st\<lparr>filterText := trim q\<rparr>) = filteredTasks (st\<lparr>filterText := q\<rparr>)"
    by (simp add: trim_no_outer_white_space)
  ultimately show ?thesis
    by blast
qed

text \<open>
  With the query \<open>spec\<close> followed by an ideographic space nothing is visible, and the
  trimmed query shows the task; with the query \<open>spec\<close> both show it.
\<close>

theorem filter_untrimmed_witness:
  "plain_state (example_state\<lparr>filterText := js ''spec'' @ [0x3000]\<rparr>) \<and>
   filteredTasks (example_state\<lparr>filterText := js ''spec'' @ [0x3000]\<rparr>) = [] \<and>
   filter (spec_visible (js ''spec'' @ [0x3000]) (set (selectedStatuses example_state)))
     (tasks example_state) = [] \<and>
   filteredTasks (example_state\<lparr>filterText := trim (js ''spec'' @ [0x3000])\<rparr>) = [example_task] \<and>
   plain_state (example_state\<lparr>filterText := js ''spec''\<rparr>) \<and>
   no_outer_white_space (js ''spec'') \<and>
   filteredTasks (example_state\<lparr>filterText := trim (js ''spec'')\<rparr>) = [example_task] \<and>
   filteredTasks (example_state\<lparr>filterText := js ''spec''\<rparr>) = [example_task]"
proof -
  have p1: "plain_state (example_state\<lparr>filterText := js ''spec'' @ [0x3000]\<rparr>)"
    by (simp add: example_defs string_defs)
  have p2: "plain_state (example_state\<lparr>filterText := js ''spec''\<rparr>)"
    by (simp add: example_defs string_defs)
  have n: "no_outer_white_space (js ''spec'')"
    by (simp add: example_defs string_defs)
  have e: "filteredTasks (example_state\<lparr>filterText := js ''spec'' @ [0x3000]\<rparr>) = []"
          "filteredTasks (example_state\<lparr>filterText := trim (js ''spec'' @ [0x3000])\<rparr>)
             = [example_task]"
          "filteredTasks (example_state\<lparr>filterText := js ''spec''\<rparr>) = [example_task]"
    by (simp_all add: filteredTasks_def example_defs string_defs)
  show ?thesis
    using filter_untrimmed [OF p1] filter_untrimmed [OF p2] p1 p2 n e by simp
qed

subsection \<open>Loading\<close>




text \<open>
  C4. When \<open>fetchTasks\<close> fails, \<open>loadTasks\<close> logs the failure and stores the empty
  collection, whatever the collection held before; no other part of the state changes.
\<close>

theorem loadTasks_failure_empties:
  "loadTasks (Inl e) st = (st\<lparr>tasks := []\<rparr>, [FetchTasks, ConsoleError FetchFailed e])"
  by (simp add: loadTasks_def)

lemma loadTasks_failure_example:
  "tasks example_state = [example_task] \<and>
   tasks (fst (loadTasks (Inl example_error) example_state)) = []"
  by (simp add: loadTasks_def example_defs)

subsection \<open>The draft editor\<close>

text \<open>
  C3, as the claim states it, fails twice. When \<open>createTask\<close> rejects, the editor stays open
  and keeps both fields; when the name is blank, the editor closes but both fields keep
  their text.
\<close>

theorem handleCreate_confirm_counterexample:
  "editingNewTask (fst (handleCreate (Inl example_error) (Inr (Some [])) example_draft)) \<and>
   newTaskName (fst (handleCreate (Inl example_error) (Inr (Some [])) example_draft))
     = js ''  Review  '' \<and>
   newTaskDetails (fst (handleCreate (Inl example_error) (Inr (Some [])) example_draft))
     = js ''by Friday'' \<and>
   trim (newTaskName blank_draft) = [] \<and>
   newTaskName (fst (handleCreate (Inr ()) (Inr (Some [])) blank_draft)) = [0xA0, 0x3000, 0x20] \<and>
   newTaskDetails (fst (handleCreate (Inr ()) (Inr (Some [])) blank_draft)) = js ''by Friday''"
  by (simp add: handleCreate_def example_defs string_defs)

text \<open>
  C3, amended. The Enter key confirms like the button. A blank name issues no call and closes
  the editor. Otherwise exactly one create call is made, with the trimmed name and details
  and the status \<open>NotStarted\<close>: when it succeeds the editor closes with both fields cleared
  and the collection is reloaded, so that it holds what the fetch returned; when it fails the
  failure is logged and the state is left as it was, the editor still open with both fields
  kept.
\<close>

theorem handleCreate_outcomes:
  "handleKeyDown ''Enter'' created fetched st = handleCreate created fetched st \<and>
   (trim (newTaskName st) = [] \<longrightarrow>
      snd (handleCreate created fetched st) = [] \<and>
      \<not> editingNewTask (fst (handleCreate created fetched st))) \<and>
   (trim (newTaskName st) \<noteq> [] \<longrightarrow>
      remote_calls (snd (handleCreate (Inr u) fetched st)) =
        [CreateTask \<lparr> name_f = trim (newTaskName st), details_f = trim (newTaskDetails st),
                      status_f = NotStarted \<rparr>, FetchTasks] \<and>
      \<not> editingNewTask (fst (handleCreate (Inr u) fetched st)) \<and>
      newTaskName (fst (handleCreate (Inr u) fetched st)) = [] \<and>
      newTaskDetails (fst (handleCreate (Inr u) fetched st)) = [] \<and>
      fst (handleCreate (Inr u) fetched st) =
        st\<lparr>newTaskName := [], newTaskDetails := [], editingNewTask := False,
           tasks := tasks (fst (loadTasks fetched st))\<rparr> \<and>
      tasks (fst (handleCreate (Inr u) (Inr (Some d)) st)) = d \<and>
      handleCreate (Inl e) fetched st =
        (st, [CreateTask \<lparr> name_f = trim (newTaskName st),
                            details_f = trim (newTaskDetails st), status_f = NotStarted \<rparr>,
              ConsoleError CreateFailed e]))"
  by (auto simp: handleKeyDown_def handleCreate_def loadTasks_def remote_calls_def Let_def
           split: sum.splits)

theorem handleCreate_outcomes_witness:
  "trim (newTaskName blank_draft) = [] \<and>
   snd (handleCreate (Inr ()) (Inr (Some [])) blank_draft) = [] \<and>
   \<not> editingNewTask (fst (handleCreate (Inr ()) (Inr (Some [])) blank_draft)) \<and>
   trim (newTaskName example_draft) \<noteq> [] \<and>
   remote_calls (snd (handleCreate (Inr ()) (Inr (Some [])) example_draft)) =
     [CreateTask \<lparr> name_f = js ''Review'', details_f = js ''by Friday'',
                   status_f = NotStarted \<rparr>,
      FetchTasks] \<and>
   newTaskName (fst (handleCreate (Inr ()) (Inr (Some [])) example_draft)) = [] \<and>
   newTaskDetails (fst (handleCreate (Inr ()) (Inr (Some [])) example_draft)) = [] \<and>
   tasks (fst (handleCreate (Inr ()) (Inr (Some [cafe_task])) example_draft)) = [cafe_task] \<and>
   fst (handleCreate (Inl example_error) (Inr (Some [])) example_draft) = example_draft"
proof -
  have b: "trim (newTaskName blank_draft) = []"
    by (simp add: example_defs string_defs)
  have n: "trim (newTaskName example_draft) \<noteq> []"
    by (simp add: example_defs string_defs)
  have v: "trim (newTaskName example_draft) = js ''Review''"
          "trim (newTaskDetails example_draft) = js ''by Friday''"
    by (simp_all add: example_defs string_defs)
  show ?thesis
    using handleCreate_outcomes
            [of "Inr ()" "Inr (Some [])" blank_draft "()" "[cafe_task]" example_error]
      handleCreate_outcomes
            [of "Inr ()" "Inr (Some [])" example_draft "()" "[cafe_task]" example_error] b n v
    by simp
qed

subsection \<open>Failed mutations\<close>

text \<open>
  C5. When the create, update or delete call fails, the handler leaves the task collection
  as it was and starts no reload. This holds for the three handlers with a \<open>catch\<close>, which
  log the failure, and for the drag handler, whose promise rejects instead.
\<close>

theorem mutation_failure_keeps_tasks:
  "tasks (fst (handleCreate (Inl e) fetched st)) = tasks st \<and>
   FetchTasks \<notin> set (snd (handleCreate (Inl e) fetched st)) \<and>
   handleStatusChange task newStatus (Inl e) fetched st =
     (st, [UpdateTask (id' task)
             \<lparr> name_f = name task, details_f = details task, status_f = newStatus \<rparr>,
           ConsoleError StatusUpdateFailed e]) \<and>
   handleDelete i (Inl e) fetched st = (st, [DeleteTask i, ConsoleError DeleteFailed e]) \<and>
   fst (handleDragEnd result (Inl e) fetched st) = st \<and>
   FetchTasks \<notin> set (fst (snd (handleDragEnd result (Inl e) fetched st)))"
  by (simp add: handleCreate_def handleStatusChange_def handleDelete_def handleDragEnd_def
           Let_def split: option.splits)

subsection \<open>The view mode\<close>

lemma initialView_absent_or_empty:
  "params_get ''view'' params = None \<or> params_get ''view'' params = Some []
     \<Longrightarrow> initialView params = ''table''"
  by (auto simp: initialView_def)

lemma initialView_recognized:
  "initialView [(''view'', ''table'')] = ''table'' \<and>
   initialView [(''view'', ''board'')] = ''board''"
  by (simp add: initialView_def)

text \<open>
  C6 at the query string \<open>?view=foo\<close>: the view mode of the first render is \<open>foo\<close>, not
  \<open>table\<close>. Only an absent or empty parameter falls back to \<open>table\<close>.
\<close>

theorem initialView_unrecognized:
  "initialView [(''view'', ''foo'')] = ''foo'' \<and>
   viewMode (mount [(''view'', ''foo'')]) = ''foo''"
  by (simp add: initialView_def mount_def)

lemma params_set_others:
  "filter (\<lambda>p. fst p \<noteq> n) (params_set n v ps) = filter (\<lambda>p. fst p \<noteq> n) ps"
  by (induction ps) auto

lemma params_get_set: "params_get n (params_set n v ps) = Some v"
  by (induction ps) auto

text \<open>
  C10. Writing the view mode to the query string leaves the tuples of every other
  parameter as they were, values and order included, both when the effect runs and when
  a click changes the mode; afterwards the \<open>view\<close> parameter reads as the view mode.
\<close>

theorem viewModeEffect_frame:
  "filter (\<lambda>p. fst p \<noteq> ''view'') (location_search (viewModeEffect st)) =
     filter (\<lambda>p. fst p \<noteq> ''view'') (location_search st) \<and>
   filter (\<lambda>p. fst p \<noteq> ''view'') (location_search (setViewMode v st)) =
     filter (\<lambda>p. fst p \<noteq> ''view'') (location_search st) \<and>
   params_get ''view'' (location_search (viewModeEffect st)) = Some (viewMode st)"
  by (simp add: viewModeEffect_def setViewMode_def params_set_others params_get_set)

lemma viewModeEffect_example:
  "location_search (setViewMode ''table''
     (mount [(''a'', ''1''), (''view'', ''board''), (''b'', ''2''), (''view'', ''x'')])) =
   [(''a'', ''1''), (''view'', ''table''), (''b'', ''2'')]"
  by code_simp

subsection \<open>Drag and drop\<close>

lemma taskToUpdate_Some:
  "taskToUpdate result st = Some t
     \<Longrightarrow> t \<in> set (filteredTasks st) \<and> number_toString (id' t) = draggableId result"
  by (auto simp: taskToUpdate_def find_Some_iff)

lemma taskToUpdate_None:
  "taskToUpdate result st = None \<longleftrightarrow>
     \<not> (\<exists>t \<in> set (filteredTasks st). number_toString (id' t) = draggableId result)"
  by (auto simp: taskToUpdate_def find_None_iff)

text \<open>
  C8. A drag that ends outside every column, or on the column it started from, does
  nothing: no call, no log entry, no rejection, and the state is the one before.
\<close>

theorem dragEnd_noop:
  "destination result = None \<or>
   (\<exists>dest. destination result = Some dest \<and> droppableId dest = droppableId (source result))
   \<Longrightarrow> handleDragEnd result updated fetched st = (st, [], None)"
  by (auto simp: handleDragEnd_def)

theorem dragEnd_noop_witness:
  "destination (example_drag\<lparr>destination := None\<rparr>) = None \<and>
   handleDragEnd (example_drag\<lparr>destination := None\<rparr>) (Inr ()) (Inr (Some [])) example_state =
     (example_state, [], None) \<and>
   destination (example_drag\<lparr>destination := Some (source example_drag)\<rparr>) =
     Some (source example_drag) \<and>
   handleDragEnd (example_drag\<lparr>destination := Some (source example_drag)\<rparr>) (Inr ())
     (Inr (Some [])) example_state = (example_state, [], None)"
proof -
  have a: "destination (example_drag\<lparr>destination := None\<rparr>) = None"
    by simp
  have b: "\<exists>dest. destination (example_drag\<lparr>destination := Some (source example_drag)\<rparr>) = Some dest \<and>
             droppableId dest =
               droppableId (source (example_drag\<lparr>destination := Some (source example_drag)\<rparr>))"
    by simp
  show ?thesis
    using dragEnd_noop [OF disjI1, OF a, of "Inr ()" "Inr (Some [])" example_state]
      dragEnd_noop [OF disjI2, OF b, of "Inr ()" "Inr (Some [])" example_state]
    by simp
qed

text \<open>
  C7. When no task of the visible subset has the dragged id, the drag is ignored: no call,
  no log entry, no rejection, and the state is the one before. The full collection is not
  consulted.
\<close>

theorem dragEnd_unresolved_ignored:
  "taskToUpdate result st = None \<Longrightarrow> handleDragEnd result updated fetched st = (st, [], None)"
  by (simp add: handleDragEnd_def split: option.splits)

text \<open>Here the query \<open>report\<close> hides the task; the collection still holds it.\<close>

theorem dragEnd_unresolved_ignored_witness:
  "find (\<lambda>t. number_toString (id' t) = draggableId example_drag)
     (tasks (example_state\<lparr>filterText := js ''report''\<rparr>)) = Some example_task \<and>
   taskToUpdate example_drag (example_state\<lparr>filterText := js ''report''\<rparr>) = None \<and>
   handleDragEnd example_drag (Inr ()) (Inr (Some []))
     (example_state\<lparr>filterText := js ''report''\<rparr>) =
     (example_state\<lparr>filterText := js ''report''\<rparr>, [], None)"
proof -
  have h: "taskToUpdate example_drag (example_state\<lparr>filterText := js ''report''\<rparr>) = None"
    by (simp add: taskToUpdate_def filteredTasks_def example_defs string_defs number_toString_small)
  have f: "find (\<lambda>t. number_toString (id' t) = draggableId example_drag)
             (tasks (example_state\<lparr>filterText := js ''report''\<rparr>)) = Some example_task"
    by (simp add: example_defs number_toString_small)
  show ?thesis
    using dragEnd_unresolved_ignored [OF h, of "Inr ()" "Inr (Some [])"] h f by simp
qed



end
